theory Spec2Isabelle
  imports Complex_Main "HOL-Library.Word"
begin

section \<open>JavaScript values used by the calendar code\<close>

text \<open>
  A JavaScript string is a sequence of UTF-16 code units. Every stem, branch and
  solar-term character of the source lies in the Basic Multilingual Plane, so each is
  one code unit; string concatenation is list append.
\<close>

type_synonym js_string = "16 word list"

text \<open>
  The values that \<open>a[i] + b[j]\<close> can produce at run time when \<open>a\<close> and \<open>b\<close> are arrays
  of strings: a string, or the number NaN (when both reads are out of range).
\<close>

datatype js_value = JString js_string | JNaN

text \<open>The text \<open>undefined\<close>, which \<open>+\<close> appends for an operand that is undefined.\<close>

definition undefined_text :: js_string where
  "undefined_text = [0x75, 0x6E, 0x64, 0x65, 0x66, 0x69, 0x6E, 0x65, 0x64]"

text \<open>The text \<open>NaN\<close>, the property key that the number NaN converts to.\<close>

definition NaN_text :: js_string where
  "NaN_text = [0x4E, 0x61, 0x4E]"

definition js_rem :: "int \<Rightarrow> int \<Rightarrow> int" where
  \<comment> \<open>The operator \<open>%\<close> on integral numbers: the remainder takes the sign of the dividend.\<close>
  "js_rem a b = sgn a * (\<bar>a\<bar> mod \<bar>b\<bar>)"

definition js_index :: "'a list \<Rightarrow> int \<Rightarrow> 'a option" where
  \<comment> \<open>Array read \<open>xs[i]\<close>: outside \<open>0 .. length - 1\<close> the result is undefined (\<open>None\<close>).\<close>
  "js_index xs i = (if 0 \<le> i \<and> i < int (length xs) then Some (xs ! nat i) else None)"

fun js_add :: "js_string option \<Rightarrow> js_string option \<Rightarrow> js_value" where
  \<comment> \<open>The operator \<open>+\<close> on operands that are each a string or undefined.\<close>
  "js_add (Some a) (Some b) = JString (a @ b)"
| "js_add (Some a) None = JString (a @ undefined_text)"
| "js_add None (Some b) = JString (undefined_text @ b)"
| "js_add None None = JNaN"

fun ToPropertyKey :: "js_value \<Rightarrow> js_string" where
  "ToPropertyKey (JString s) = s"
| "ToPropertyKey JNaN = NaN_text"

section \<open>Camera focus controller\<close>

text \<open>
  \<open>CameraController\<close> (component lines 230--315) and \<open>easeInOutCubic\<close>. Numbers are
  modelled as real numbers, so rounding is left out; times are milliseconds as
  \<open>performance.now()\<close> gives them.
\<close>

type_synonym Vector3 = "real \<times> real \<times> real"

fun addVectors :: "Vector3 \<Rightarrow> Vector3 \<Rightarrow> Vector3" where
  "addVectors (ax, ay, az) (bx, by, bz) = (ax + bx, ay + by, az + bz)"

fun lerpVectors :: "Vector3 \<Rightarrow> Vector3 \<Rightarrow> real \<Rightarrow> Vector3" where
  \<comment> \<open>Each component is \<open>v1 + (v2 - v1) * alpha\<close>.\<close>
  "lerpVectors (ax, ay, az) (bx, by, bz) alpha =
     (ax + (bx - ax) * alpha, ay + (by - ay) * alpha, az + (bz - az) * alpha)"

definition euclidean_norm :: "Vector3 \<Rightarrow> real" where
  \<comment> \<open>The length of a vector, by which positions are compared with the orbit radius.\<close>
  "euclidean_norm v = (case v of (x, y, z) \<Rightarrow> sqrt (x\<^sup>2 + y\<^sup>2 + z\<^sup>2))"

definition easeInOutCubic :: "real \<Rightarrow> real" where
  "easeInOutCubic t = (if t < 0.5 then 4 * t * t * t else 1 - (- 2 * t + 2) ^ 3 / 2)"

text \<open>
  What the controller reads and writes: the camera position, the fields \<open>target\<close> and
  \<open>enabled\<close> of the OrbitControls object, the two refs \<open>isAnimating\<close> and
  \<open>animationRef\<close>, and the browser's list of requested animation frames with the next
  handle it will hand out.
\<close>

record controller =
  camera_position :: Vector3
  controls_target :: Vector3
  controls_enabled :: bool
  isAnimating :: bool
  animationRef :: "nat option"
  requested_frames :: "nat list"
  next_handle :: nat

text \<open>The variables that the closure \<open>animate\<close> captures when a transition starts.\<close>

record transition =
  startPosition :: Vector3
  startTarget :: Vector3
  endPosition :: Vector3
  target :: Vector3
  duration :: real
  startTime :: real

definition requestAnimationFrame :: "controller \<Rightarrow> nat \<times> controller" where
  "requestAnimationFrame s =
     (next_handle s,
      s\<lparr>requested_frames := requested_frames s @ [next_handle s],
        next_handle := Suc (next_handle s)\<rparr>)"

definition cancelAnimationFrame :: "nat \<Rightarrow> controller \<Rightarrow> controller" where
  "cancelAnimationFrame h s = s\<lparr>requested_frames := removeAll h (requested_frames s)\<rparr>"

text \<open>
  The callback \<open>animate\<close>, run at the time \<open>now\<close>. The parameter \<open>controls_update\<close>
  stands for the library call \<open>controls.update()\<close> of the completion branch.
\<close>

definition animate ::
  "(controller \<Rightarrow> controller) \<Rightarrow> transition \<Rightarrow> real \<Rightarrow> controller \<Rightarrow> controller" where
  "animate controls_update tr now s =
     (let elapsed = now - startTime tr;
          progress = min (elapsed / duration tr) 1
      in if progress \<le> 1 then
           (let eased = easeInOutCubic progress;
                s1 = s\<lparr>camera_position := lerpVectors (startPosition tr) (endPosition tr) eased,
                       controls_target := lerpVectors (startTarget tr) (target tr) eased\<rparr>;
                (h, s2) = requestAnimationFrame s1
            in s2\<lparr>animationRef := Some h\<rparr>)
         else
           (controls_update (s\<lparr>controls_enabled := True\<rparr>))
             \<lparr>isAnimating := False, animationRef := None\<rparr>)"

text \<open>
  One browser frame at the time \<open>now\<close>: the requested callbacks are taken off the list
  and run; the only callback this component ever requests is \<open>animate\<close>.
\<close>

definition frame ::
  "(controller \<Rightarrow> controller) \<Rightarrow> transition \<Rightarrow> real \<Rightarrow> controller \<Rightarrow> controller" where
  "frame controls_update tr now s =
     (if requested_frames s = [] then s
      else animate controls_update tr now (s\<lparr>requested_frames := []\<rparr>))"

text \<open>
  The effect body that runs when \<open>targetPosition\<close> changes; \<open>now\<close> is the value of
  \<open>performance.now()\<close> and \<open>has_controls\<close> says that \<open>controlsRef.current\<close> is set.
  It returns the new state and, when a transition starts, its closure variables.
\<close>

definition focus ::
  "Vector3 option \<Rightarrow> bool \<Rightarrow> real \<Rightarrow> controller \<Rightarrow> controller \<times> transition option" where
  "focus targetPosition has_controls now s =
     (case targetPosition of
        None \<Rightarrow> (s, None)
      | Some tgt \<Rightarrow>
          if has_controls \<and> \<not> isAnimating s then
            (let distance = 25;
                 s1 = s\<lparr>controls_enabled := False, isAnimating := True\<rparr>;
                 tr = \<lparr>startPosition = camera_position s1,
                       startTarget = controls_target s1,
                       endPosition = addVectors tgt (distance, distance * 0.6, distance),
                       target = tgt,
                       duration = 1200,
                       startTime = now\<rparr>;
                 s2 = (case animationRef s1 of
                         Some h \<Rightarrow> cancelAnimationFrame h s1
                       | None \<Rightarrow> s1);
                 (h, s3) = requestAnimationFrame s2
             in (s3\<lparr>animationRef := Some h\<rparr>, Some tr))
          else (s, None))"

text \<open>The clean-up function of the effect.\<close>

definition cleanup :: "bool \<Rightarrow> controller \<Rightarrow> controller" where
  "cleanup has_controls s =
     (let s1 = (case animationRef s of
                  Some h \<Rightarrow> (cancelAnimationFrame h s)\<lparr>animationRef := None\<rparr>
                | None \<Rightarrow> s);
          s2 = (if has_controls then s1\<lparr>controls_enabled := True\<rparr> else s1)
      in s2\<lparr>isAnimating := False\<rparr>)"

section \<open>Positions and the solar-term index of the scene\<close>

text \<open>
  A \<open>Date\<close> as far as the code reads it: the time value in milliseconds (an integer)
  and the calendar year in local time.
\<close>

record Date =
  getTime :: int
  getFullYear :: int

text \<open>
  The dates of the host, for a host whose local time is UTC. \<open>days_from_civil\<close> is
  the number of days from 1970-01-01 to a day of the proleptic Gregorian calendar (a
  day number below 1 counts back from the first of the month), and \<open>year_of_days\<close>
  is the calendar year of such a day count. \<open>Date_of_time\<close> is the \<open>Date\<close> with a
  given time value, \<open>Date_parse\<close> is \<open>new Date('YYYY-MM-DD')\<close>, and \<open>new_Date\<close>
  is the constructor \<open>new Date(year, monthIndex, day)\<close>, which reads a year from 0
  to 99 as \<open>1900 + year\<close>.
\<close>

definition days_from_civil :: "int \<Rightarrow> int \<Rightarrow> int \<Rightarrow> int" where
  "days_from_civil y m d =
     (let y' = (if m \<le> 2 then y - 1 else y);
          era = y' div 400;
          yoe = y' - era * 400;
          doy = (153 * (if m > 2 then m - 3 else m + 9) + 2) div 5 + d - 1;
          doe = yoe * 365 + yoe div 4 - yoe div 100 + doy
      in era * 146097 + doe - 719468)"

definition year_of_days :: "int \<Rightarrow> int" where
  "year_of_days z =
     (let z' = z + 719468;
          era = z' div 146097;
          doe = z' - era * 146097;
          yoe = (doe - doe div 1460 + doe div 36524 - doe div 146096) div 365;
          doy = doe - (365 * yoe + yoe div 4 - yoe div 100);
          mp = (5 * doy + 2) div 153;
          m = (if mp < 10 then mp + 3 else mp - 9)
      in if m \<le> 2 then yoe + era * 400 + 1 else yoe + era * 400)"

definition Date_of_time :: "int \<Rightarrow> Date" where
  "Date_of_time t = \<lparr>getTime = t, getFullYear = year_of_days (t div 86400000)\<rparr>"

definition Date_parse :: "int \<Rightarrow> int \<Rightarrow> int \<Rightarrow> Date" where
  "Date_parse y m d = Date_of_time (days_from_civil y m d * 86400000)"

definition new_Date :: "int \<Rightarrow> int \<Rightarrow> int \<Rightarrow> Date" where
  "new_Date y monthIndex day =
     (let yr = (if 0 \<le> y \<and> y \<le> 99 then 1900 + y else y);
          ym = yr + monthIndex div 12;
          mn = monthIndex mod 12
      in Date_of_time (days_from_civil ym (mn + 1) day * 86400000))"

definition orbitalPeriods :: "(string \<times> real) list" where
  "orbitalPeriods =
     [(''Mercury'', 87.97),
      (''Venus'', 224.7),
      (''Earth'', 365.256),
      (''Mars'', 686.98),
      (''Jupiter'', 4332.59),
      (''Saturn'', 10759.22),
      (''Moon'', 27.32)]"

text \<open>
  \<open>new Date('2000-01-01')\<close>: a date-only ISO string is midnight UTC, 10957 days after
  the origin of the time value.
\<close>

definition baseDate_2000 :: Date where
  "baseDate_2000 = \<lparr>getTime = 946684800000, getFullYear = 2000\<rparr>"

text \<open>
  The enum \<open>Body\<close> comes from the library astronomy-engine; it is a parameter here, the
  list of its keys with their values in the order of \<open>Object.keys\<close>. The first two
  definitions are the two lookups of \<open>calculatePosition\<close>: the key of the body
  (\<open>Object.keys(Body).find(...)\<close>) and the period
  (\<open>orbitalPeriods[bodyKey || 'Earth'] || 365.256\<close>). An empty key and a period 0 are
  falsy, so \<open>||\<close> replaces them as it replaces undefined. A table is read at its
  own keys only: the keys of the enum are names of bodies, none of them the name of a
  property that every object inherits.
\<close>

definition bodyKey :: "(string \<times> 'b) list \<Rightarrow> 'b \<Rightarrow> string option" where
  "bodyKey Body body = find (\<lambda>key. map_of Body key = Some body) (map fst Body)"

definition period :: "(string \<times> 'b) list \<Rightarrow> 'b \<Rightarrow> real" where
  "period Body body =
     (let k = (case bodyKey Body body of
                 None \<Rightarrow> ''Earth''
               | Some key \<Rightarrow> if key = [] then ''Earth'' else key)
      in case map_of orbitalPeriods k of
           None \<Rightarrow> 365.256
         | Some p \<Rightarrow> if p = 0 then 365.256 else p)"

text \<open>
  \<open>calculatePosition\<close> for the scene's \<open>time\<close>. The source wraps the body in
  \<open>try\<close>/\<open>catch\<close>; no step of the body throws for a \<open>Date\<close> and an enum object, and
  the handler returns the position \<open>(distance, 0, 0)\<close>.
\<close>

definition calculatePosition :: "(string \<times> 'b) list \<Rightarrow> Date \<Rightarrow> 'b \<Rightarrow> real \<Rightarrow> Vector3" where
  "calculatePosition Body time body distance =
     (let daysSinceEpoch =
            real_of_int (getTime time - getTime baseDate_2000) / (1000 * 60 * 60 * 24);
          angle = (daysSinceEpoch / period Body body) * pi * 2;
          x = distance * cos angle;
          z = distance * sin angle;
          y = 0
      in (x, y, z))"

text \<open>The phase angle that \<open>calculatePosition\<close> computes, on its own.\<close>

definition phase_angle :: "(string \<times> 'b) list \<Rightarrow> Date \<Rightarrow> 'b \<Rightarrow> real" where
  "phase_angle Body time body =
     (real_of_int (getTime time - getTime baseDate_2000) / (1000 * 60 * 60 * 24)
        / period Body body) * pi * 2"

text \<open>
  \<open>getCurrentSolarTermIndex\<close> for the scene's \<open>time\<close>. The parameter \<open>newDate\<close> is
  the host's constructor \<open>new Date(year, monthIndex, day)\<close>; \<open>Math.floor\<close> of a
  quotient of integers is \<open>div\<close>.
\<close>

definition getCurrentSolarTermIndex :: "(int \<Rightarrow> int \<Rightarrow> int \<Rightarrow> Date) \<Rightarrow> Date \<Rightarrow> int" where
  "getCurrentSolarTermIndex newDate time =
     (let dayOfYear =
            (getTime time - getTime (newDate (getFullYear time) 0 0)) div (1000 * 60 * 60 * 24)
      in js_rem ((dayOfYear * 24) div 365) 24)"

section \<open>Stems, branches and the calendar labels\<close>

text \<open>
  The ten stems and twelve branches, each one code unit. The stem \<open>wu\<close> and the branch
  \<open>wu\<close> are different characters, as are the stem \<open>ji\<close> and the branch \<open>si\<close>.
\<close>

abbreviation jia :: "16 word" where "jia \<equiv> 0x7532"
abbreviation yi :: "16 word" where "yi \<equiv> 0x4E59"
abbreviation bing :: "16 word" where "bing \<equiv> 0x4E19"
abbreviation ding :: "16 word" where "ding \<equiv> 0x4E01"
abbreviation wu_stem :: "16 word" where "wu_stem \<equiv> 0x620A"
abbreviation ji :: "16 word" where "ji \<equiv> 0x5DF1"
abbreviation geng :: "16 word" where "geng \<equiv> 0x5E9A"
abbreviation xin :: "16 word" where "xin \<equiv> 0x8F9B"
abbreviation ren :: "16 word" where "ren \<equiv> 0x58EC"
abbreviation gui :: "16 word" where "gui \<equiv> 0x7678"

abbreviation zi :: "16 word" where "zi \<equiv> 0x5B50"
abbreviation chou :: "16 word" where "chou \<equiv> 0x4E11"
abbreviation yin :: "16 word" where "yin \<equiv> 0x5BC5"
abbreviation mao :: "16 word" where "mao \<equiv> 0x536F"
abbreviation chen :: "16 word" where "chen \<equiv> 0x8FB0"
abbreviation si :: "16 word" where "si \<equiv> 0x5DF3"
abbreviation wu_branch :: "16 word" where "wu_branch \<equiv> 0x5348"
abbreviation wei :: "16 word" where "wei \<equiv> 0x672A"
abbreviation shen :: "16 word" where "shen \<equiv> 0x7533"
abbreviation you :: "16 word" where "you \<equiv> 0x9149"
abbreviation xu :: "16 word" where "xu \<equiv> 0x620C"
abbreviation hai :: "16 word" where "hai \<equiv> 0x4EA5"

definition HEAVENLY_STEMS :: "js_string list" where
  "HEAVENLY_STEMS =
     [[jia], [yi], [bing], [ding], [wu_stem], [ji], [geng], [xin], [ren], [gui]]"

definition EARTHLY_BRANCHES :: "js_string list" where
  "EARTHLY_BRANCHES =
     [[zi], [chou], [yin], [mao], [chen], [si],
      [wu_branch], [wei], [shen], [you], [xu], [hai]]"

text \<open>The 24 solar-term names, two code units each, from li-chun to da-han.\<close>

definition SOLAR_TERMS :: "js_string list" where
  "SOLAR_TERMS =
     [[0x7ACB, 0x6625], [0x96E8, 0x6C34], [0x60CA, 0x86F0], [0x6625, 0x5206],
      [0x6E05, 0x660E], [0x8C37, 0x96E8], [0x7ACB, 0x590F], [0x5C0F, 0x6EE1],
      [0x8292, 0x79CD], [0x590F, 0x81F3], [0x5C0F, 0x6691], [0x5927, 0x6691],
      [0x7ACB, 0x79CB], [0x5904, 0x6691], [0x767D, 0x9732], [0x79CB, 0x5206],
      [0x5BD2, 0x9732], [0x971C, 0x964D], [0x7ACB, 0x51AC], [0x5C0F, 0x96EA],
      [0x5927, 0x96EA], [0x51AC, 0x81F3], [0x5C0F, 0x5BD2], [0x5927, 0x5BD2]]"

definition getGanZhiYear :: "int \<Rightarrow> js_value" where
  "getGanZhiYear year =
     (let offset = js_rem (year - 4) 60;
          stemIndex = js_rem offset 10;
          branchIndex = js_rem offset 12
      in js_add (js_index HEAVENLY_STEMS stemIndex) (js_index EARTHLY_BRANCHES branchIndex))"

text \<open>
  The label that the sexagenary cycle gives a year: stem and branch at the non-negative
  residues of \<open>year - 4\<close>, with the floor-based \<open>mod\<close> of HOL. The year label of the
  code is compared with it.
\<close>

definition cycle_label :: "int \<Rightarrow> js_value" where
  "cycle_label year =
     JString (HEAVENLY_STEMS ! nat ((year - 4) mod 60 mod 10)
              @ EARTHLY_BRANCHES ! nat ((year - 4) mod 60 mod 12))"

text \<open>
  \<open>generate60JiaZi\<close>. The parameter \<open>currentYear\<close> is \<open>new Date().getFullYear()\<close>,
  which the loop reads in every round. \<open>generate60JiaZi_push\<close> is the entry that round
  \<open>i\<close> pushes.
\<close>

record jiazi =
  name :: js_value
  year :: int
  startYear :: int

definition baseYear :: int where
  "baseYear = 4"

definition generate60JiaZi_push :: "int \<Rightarrow> int \<Rightarrow> jiazi" where
  "generate60JiaZi_push currentYear i =
     (let stemIndex = js_rem i 10;
          branchIndex = js_rem i 12;
          name_i = js_add (js_index HEAVENLY_STEMS stemIndex)
                          (js_index EARTHLY_BRANCHES branchIndex);
          cycles = (currentYear - baseYear) div 60;
          recentYear = baseYear + i + cycles * 60
      in if recentYear > currentYear
         then \<lparr>name = name_i, year = i, startYear = recentYear - 60\<rparr>
         else \<lparr>name = name_i, year = i, startYear = recentYear\<rparr>)"

function generate60JiaZi_loop :: "int \<Rightarrow> int \<Rightarrow> jiazi list \<Rightarrow> jiazi list" where
  "generate60JiaZi_loop currentYear i jiaziList =
     (if i < 60
      then generate60JiaZi_loop currentYear (i + 1)
             (jiaziList @ [generate60JiaZi_push currentYear i])
      else jiaziList)"
  by pat_completeness auto
termination
  by (relation "measure (\<lambda>(currentYear, i, jiaziList). nat (60 - i))") auto

definition generate60JiaZi :: "int \<Rightarrow> jiazi list" where
  "generate60JiaZi currentYear = generate60JiaZi_loop currentYear 0 []"

text \<open>
  \<open>new Date('1949-10-01')\<close>: midnight UTC of the anchor day, 7397 days before the
  origin of the time value.
\<close>

definition baseDate_1949 :: Date where
  "baseDate_1949 = \<lparr>getTime = - 639100800000, getFullYear = 1949\<rparr>"

definition getGanZhiDay :: "Date \<Rightarrow> js_value" where
  "getGanZhiDay date =
     (let daysDiff = (getTime date - getTime baseDate_1949) div (1000 * 60 * 60 * 24);
          offset = js_rem (daysDiff + 10) 60;
          stemIndex = js_rem offset 10;
          branchIndex = js_rem offset 12
      in js_add (js_index HEAVENLY_STEMS stemIndex) (js_index EARTHLY_BRANCHES branchIndex))"

definition getCurrentSolarTerm :: "(int \<Rightarrow> int \<Rightarrow> int \<Rightarrow> Date) \<Rightarrow> Date \<Rightarrow> js_string option" where
  "getCurrentSolarTerm newDate date =
     (let dayOfYear =
            (getTime date - getTime (newDate (getFullYear date) 0 0)) div (1000 * 60 * 60 * 24);
          index = js_rem ((dayOfYear * 24) div 365) 24
      in js_index SOLAR_TERMS index)"

section \<open>Cycle names and planets\<close>

text \<open>The key \<open>default\<close> of the table, as code units.\<close>

definition default_key :: js_string where
  "default_key = [0x64, 0x65, 0x66, 0x61, 0x75, 0x6C, 0x74]"

definition jiaziToPlanet :: "(js_string \<times> string) list" where
  "jiaziToPlanet =
     [([jia, zi], ''mercury''), ([yi, chou], ''mercury''),
      ([bing, zi], ''mercury''), ([ding, chou], ''mercury''),
      ([wu_stem, zi], ''mercury''), ([ji, chou], ''mercury''),
      ([geng, zi], ''mercury''), ([xin, chou], ''mercury''),
      ([ren, zi], ''mercury''), ([gui, chou], ''mercury''),

      ([ren, yin], ''jupiter''), ([gui, mao], ''jupiter''),
      ([ren, chen], ''jupiter''), ([gui, si], ''jupiter''),
      ([ren, wu_branch], ''jupiter''), ([gui, wei], ''jupiter''),
      ([ren, shen], ''jupiter''), ([gui, you], ''jupiter''),
      ([ren, xu], ''jupiter''), ([gui, hai], ''jupiter''),

      ([bing, yin], ''mars''), ([ding, mao], ''mars''),
      ([bing, chen], ''mars''), ([ding, si], ''mars''),
      ([bing, wu_branch], ''mars''), ([ding, wei], ''mars''),
      ([bing, shen], ''mars''), ([ding, you], ''mars''),
      ([bing, xu], ''mars''), ([ding, hai], ''mars''),

      ([wu_stem, yin], ''saturn''), ([ji, mao], ''saturn''),
      ([wu_stem, chen], ''saturn''), ([ji, si], ''saturn''),
      ([wu_stem, wu_branch], ''saturn''), ([ji, wei], ''saturn''),
      ([wu_stem, shen], ''saturn''), ([ji, you], ''saturn''),
      ([wu_stem, xu], ''saturn''), ([ji, hai], ''saturn''),

      ([geng, yin], ''venus''), ([xin, mao], ''venus''),
      ([geng, chen], ''venus''), ([xin, si], ''venus''),
      ([geng, wu_branch], ''venus''), ([xin, wei], ''venus''),
      ([geng, shen], ''venus''), ([xin, you], ''venus''),
      ([geng, xu], ''venus''), ([xin, hai], ''venus''),

      ([jia, yin], ''mercury''), ([yi, mao], ''mercury''),
      ([jia, chen], ''mercury''), ([yi, si], ''mercury''),
      ([jia, wu_branch], ''mercury''), ([yi, wei], ''mercury''),
      ([jia, shen], ''mercury''), ([yi, you], ''mercury''),
      ([jia, xu], ''mercury''), ([yi, hai], ''mercury''),

      (default_key, ''earth'')]"

text \<open>
  The state of the page that \<open>handleJiaziSelect\<close> sets. \<open>planet_for\<close> is its
  expression \<open>jiaziToPlanet[jiaziName] || jiaziToPlanet['default']\<close>: the key is the
  name converted to a property key, and an empty string is falsy.
\<close>

record home =
  currentTime :: Date
  showJiaziModal :: bool
  isPlaying :: bool
  targetPlanet :: "string option"

definition planet_for :: "js_value \<Rightarrow> string option" where
  "planet_for jiaziName =
     (case map_of jiaziToPlanet (ToPropertyKey jiaziName) of
        Some p \<Rightarrow> if p \<noteq> [] then Some p else map_of jiaziToPlanet default_key
      | None \<Rightarrow> map_of jiaziToPlanet default_key)"

definition handleJiaziSelect ::
  "(int \<Rightarrow> int \<Rightarrow> int \<Rightarrow> Date) \<Rightarrow> int \<Rightarrow> js_value \<Rightarrow> home \<Rightarrow> home" where
  "handleJiaziSelect newDate startYear' jiaziName st =
     (let st1 = st\<lparr>currentTime := newDate startYear' 0 1,
                    showJiaziModal := False,
                    isPlaying := False\<rparr>;
          planet = planet_for jiaziName
      in case planet of
           Some p \<Rightarrow> if p \<noteq> [] then st1\<lparr>targetPlanet := Some p\<rparr>
                     else st1\<lparr>targetPlanet := Some ''earth''\<rparr>
         | None \<Rightarrow> st1\<lparr>targetPlanet := Some ''earth''\<rparr>)"

section \<open>The camera transition\<close>

text \<open>
  Whatever the time of the frame, \<open>animate\<close> takes its first branch: the progress is
  a minimum with 1 and so never exceeds 1. The controls stay disabled, \<open>isAnimating\<close>
  stays set, and a further frame is requested and its handle stored. The duration is
  the 1200 ms that \<open>focus\<close> gives every transition.
\<close>

lemma animate_keeps_transitioning:
  assumes "duration tr = 1200"
  shows "controls_enabled (animate controls_update tr now s) = controls_enabled s
   \<and> isAnimating (animate controls_update tr now s) = isAnimating s
   \<and> animationRef (animate controls_update tr now s) = Some (next_handle s)
   \<and> requested_frames (animate controls_update tr now s)
       = requested_frames s @ [next_handle s]"
  using assms by (simp add: animate_def Let_def requestAnimationFrame_def)

text \<open>
  C2. The claim: when the progress of a focus transition reaches 1.0 (1200 ms after its
  start), the frame's tick re-enables the controls, clears \<open>isAnimating\<close> and the
  stored frame handle, and the loop stops. In the code the completion branch stands
  under \<open>else\<close> of the test \<open>progress <= 1\<close>, and \<open>progress\<close> is
  \<open>Math.min(elapsed / duration, 1)\<close>; the branch is never taken. Below, a transition
  to the point (24, 0, 0) starts at the time 1000. The frame at 2200 (progress 1.0)
  puts the camera at the end position and leaves the controls disabled,
  \<open>isAnimating\<close> set and a new frame requested; the frame at 9000 does the same.
\<close>

theorem animate_at_full_progress:
  "(case focus (Some (24, 0, 0)) True 1000
           \<lparr>camera_position = (0, 50, 100), controls_target = (0, 0, 0),
            controls_enabled = True, isAnimating = False, animationRef = None,
            requested_frames = [], next_handle = 0\<rparr> of
      (s1, None) \<Rightarrow> False
    | (s1, Some tr) \<Rightarrow>
        controls_enabled s1 = False \<and> isAnimating s1 = True \<and> animationRef s1 = Some 0
        \<and> duration tr = 1200 \<and> startTime tr = 1000
        \<and> (let s2 = frame (\<lambda>s. s) tr 2200 s1;
                s3 = frame (\<lambda>s. s) tr 9000 s2
            in camera_position s2 = (49, 15, 25) \<and> controls_target s2 = (24, 0, 0)
               \<and> controls_enabled s2 = False \<and> isAnimating s2 = True
               \<and> animationRef s2 = Some 1 \<and> requested_frames s2 = [1]
               \<and> controls_enabled s3 = False \<and> isAnimating s3 = True
               \<and> animationRef s3 = Some 2 \<and> requested_frames s3 = [2]))"
  by (simp add: focus_def frame_def animate_def Let_def requestAnimationFrame_def
      easeInOutCubic_def)

section \<open>Facts about the year label\<close>

lemma js_rem_nonneg: "0 \<le> a \<Longrightarrow> 0 < b \<Longrightarrow> js_rem a b = a mod b"
  by (simp add: js_rem_def sgn_if)

lemma js_index_in_range:
  "0 \<le> i \<Longrightarrow> i < int (length xs) \<Longrightarrow> js_index xs i = Some (xs ! nat i)"
  by (simp add: js_index_def)

lemma length_HEAVENLY_STEMS: "length HEAVENLY_STEMS = 10"
  by (simp add: HEAVENLY_STEMS_def)

lemma length_EARTHLY_BRANCHES: "length EARTHLY_BRANCHES = 12"
  by (simp add: EARTHLY_BRANCHES_def)

text \<open>
  The label built from an index pair that is already a pair of residues, as both
  \<open>getGanZhiYear\<close> and \<open>generate60JiaZi\<close> build it.
\<close>

lemma label_of_residue:
  assumes "0 \<le> k"
  shows "js_add (js_index HEAVENLY_STEMS (js_rem k 10)) (js_index EARTHLY_BRANCHES (js_rem k 12))
         = JString (HEAVENLY_STEMS ! nat (k mod 10) @ EARTHLY_BRANCHES ! nat (k mod 12))"
proof -
  have s: "js_rem k 10 = k mod 10" using assms by (simp add: js_rem_nonneg)
  have b: "js_rem k 12 = k mod 12" using assms by (simp add: js_rem_nonneg)
  have si: "js_index HEAVENLY_STEMS (k mod 10) = Some (HEAVENLY_STEMS ! nat (k mod 10))"
    by (rule js_index_in_range) (simp_all add: length_HEAVENLY_STEMS)
  have bi: "js_index EARTHLY_BRANCHES (k mod 12) = Some (EARTHLY_BRANCHES ! nat (k mod 12))"
    by (rule js_index_in_range) (simp_all add: length_EARTHLY_BRANCHES)
  show ?thesis
    unfolding s b si bi by simp
qed

text \<open>From the epoch year 4 onwards the code computes the cycle's label.\<close>

lemma getGanZhiYear_from_epoch:
  assumes "4 \<le> Y"
  shows "getGanZhiYear Y = cycle_label Y"
proof -
  have o: "js_rem (Y - 4) 60 = (Y - 4) mod 60"
    using assms by (simp add: js_rem_nonneg)
  have o0: "0 \<le> (Y - 4) mod 60" by simp
  show ?thesis
    unfolding getGanZhiYear_def cycle_label_def Let_def o
    by (rule label_of_residue [OF o0])
qed

lemma cycle_label_periodic: "cycle_label (Y + 60) = cycle_label Y"
proof -
  have "Y + 60 - 4 = (Y - 4) + 60"
    by simp
  then have "(Y + 60 - 4) mod 60 = (Y - 4) mod 60"
    by (simp only: mod_add_self2)
  then show ?thesis
    unfolding cycle_label_def by simp
qed

lemma getGanZhiYear_periodic_from_epoch:
  "4 \<le> Y \<Longrightarrow> getGanZhiYear (Y + 60) = getGanZhiYear Y"
  by (simp add: getGanZhiYear_from_epoch cycle_label_periodic)

section \<open>Year labels before the epoch\<close>

text \<open>
  C1. The claim: for every integer year, also before 4 CE, \<open>getGanZhiYear\<close> returns the
  label at the non-negative residues of \<open>year - 4\<close>, a well-formed stem and branch string,
  and the year 4 is jia-zi. The code computes the residues with \<open>%\<close>, which is negative
  for a negative dividend. At the year 3 both array reads are out of range and the
  result is the number NaN, where the cycle's label is gui-hai; at the year -6 the
  result is jia followed by the text \<open>undefined\<close>, where the cycle's label is jia-yin.
  The anchor year 4 (jia-zi) and the year 2024 (jia-chen) come out as claimed.
\<close>

theorem getGanZhiYear_before_epoch:
  "getGanZhiYear 3 = JNaN
   \<and> cycle_label 3 = JString [gui, hai]
   \<and> getGanZhiYear (- 6) = JString ([jia] @ undefined_text)
   \<and> cycle_label (- 6) = JString [jia, yin]
   \<and> getGanZhiYear 4 = JString [jia, zi]
   \<and> getGanZhiYear 2024 = JString [jia, chen]"
  by (simp add: getGanZhiYear_def cycle_label_def js_rem_def js_index_def
      HEAVENLY_STEMS_def EARTHLY_BRANCHES_def)

text \<open>
  C3. The claim: for all integer years Y, \<open>getGanZhiYear Y = getGanZhiYear (Y + 60)\<close>.
  At Y = 3 the code returns NaN for Y and the label gui-hai for Y + 60 = 63; the
  truncating \<open>%\<close> that C1 meets is the cause. From the year 4 onwards the equation holds
  (\<open>getGanZhiYear_periodic_from_epoch\<close>).
\<close>

theorem getGanZhiYear_period_broken:
  "getGanZhiYear 3 = JNaN
   \<and> getGanZhiYear (3 + 60) = JString [gui, hai]
   \<and> getGanZhiYear 3 \<noteq> getGanZhiYear (3 + 60)"
  by (simp add: getGanZhiYear_def js_rem_def js_index_def
      HEAVENLY_STEMS_def EARTHLY_BRANCHES_def)

section \<open>The table of sixty cycle names\<close>

lemma generate60JiaZi_loop_unfold:
  "i \<le> 60 \<Longrightarrow>
   generate60JiaZi_loop currentYear i jiaziList
   = jiaziList @ map (generate60JiaZi_push currentYear) [i..59]"
proof (induction currentYear i jiaziList rule: generate60JiaZi_loop.induct)
  case (1 currentYear i jiaziList)
  show ?case
  proof (cases "i < 60")
    case True
    then have u: "[i..59] = i # [i + 1..59]"
      by (simp add: upto_rec1)
    from True have "i + 1 \<le> 60" by simp
    with 1 True have
      "generate60JiaZi_loop currentYear (i + 1) (jiaziList @ [generate60JiaZi_push currentYear i])
       = (jiaziList @ [generate60JiaZi_push currentYear i])
         @ map (generate60JiaZi_push currentYear) [i + 1..59]"
      by blast
    with True u show ?thesis
      by (simp del: generate60JiaZi_loop.simps add: generate60JiaZi_loop.simps [of currentYear i])
  next
    case False
    with 1(2) have "i = 60" by simp
    then show ?thesis by simp
  qed
qed

lemma generate60JiaZi_map:
  "generate60JiaZi currentYear = map (generate60JiaZi_push currentYear) [0..59]"
  by (simp add: generate60JiaZi_def generate60JiaZi_loop_unfold del: generate60JiaZi_loop.simps)

lemma length_generate60JiaZi: "length (generate60JiaZi currentYear) = 60"
  by (simp add: generate60JiaZi_map)

text \<open>The index range of the loop; the simplifier enumerates the rest from 2 on.\<close>

lemma upto_0_59: "[0..59::int] = 0 # 1 # [2..59]"
  by (simp add: upto_rec1)

lemma name_push:
  "name (generate60JiaZi_push currentYear i)
   = js_add (js_index HEAVENLY_STEMS (js_rem i 10)) (js_index EARTHLY_BRANCHES (js_rem i 12))"
  by (simp add: generate60JiaZi_push_def Let_def)

lemma names_generate60JiaZi:
  "map name (generate60JiaZi currentYear) =
     map JString
     [[jia, zi], [yi, chou], [bing, yin], [ding, mao], [wu_stem, chen], [ji, si],
      [geng, wu_branch], [xin, wei], [ren, shen], [gui, you], [jia, xu], [yi, hai],
      [bing, zi], [ding, chou], [wu_stem, yin], [ji, mao], [geng, chen], [xin, si],
      [ren, wu_branch], [gui, wei], [jia, shen], [yi, you], [bing, xu], [ding, hai],
      [wu_stem, zi], [ji, chou], [geng, yin], [xin, mao], [ren, chen], [gui, si],
      [jia, wu_branch], [yi, wei], [bing, shen], [ding, you], [wu_stem, xu], [ji, hai],
      [geng, zi], [xin, chou], [ren, yin], [gui, mao], [jia, chen], [yi, si],
      [bing, wu_branch], [ding, wei], [wu_stem, shen], [ji, you], [geng, xu], [xin, hai],
      [ren, zi], [gui, chou], [jia, yin], [yi, mao], [bing, chen], [ding, si],
      [wu_stem, wu_branch], [ji, wei], [geng, shen], [xin, you], [ren, xu], [gui, hai]]"
  unfolding generate60JiaZi_map upto_0_59
  by (simp add: name_push js_rem_def js_index_def HEAVENLY_STEMS_def EARTHLY_BRANCHES_def)

lemma distinct_names_generate60JiaZi:
  "distinct (map name (generate60JiaZi currentYear))"
  unfolding names_generate60JiaZi by (simp add: distinct_map inj_on_def)

lemma startYear_push:
  "startYear (generate60JiaZi_push currentYear i)
   = (if 4 + i + (currentYear - 4) div 60 * 60 > currentYear
      then 4 + i + (currentYear - 4) div 60 * 60 - 60
      else 4 + i + (currentYear - 4) div 60 * 60)"
  by (simp add: generate60JiaZi_push_def Let_def baseYear_def)

lemma startYear_push_window:
  assumes "0 \<le> i" "i < 60"
  shows "currentYear - 60 < startYear (generate60JiaZi_push currentYear i)
         \<and> startYear (generate60JiaZi_push currentYear i) \<le> currentYear"
proof -
  define c where "c = (currentYear - 4) div 60"
  have eq: "c * 60 + (currentYear - 4) mod 60 = currentYear - 4"
    unfolding c_def by (rule div_mult_mod_eq)
  have m: "0 \<le> (currentYear - 4) mod 60" "(currentYear - 4) mod 60 < 60"
    by simp_all
  from eq m have lo: "c * 60 \<le> currentYear - 4" and hi: "currentYear - 4 < c * 60 + 60"
    by linarith+
  show ?thesis
    unfolding startYear_push c_def [symmetric] using assms lo hi by auto
qed

lemma startYear_push_residue:
  assumes "0 \<le> i" "i < 60"
  shows "(startYear (generate60JiaZi_push currentYear i) - 4) mod 60 = i"
proof -
  define c where "c = (currentYear - 4) div 60"
  have a: "(4 + i + c * 60 - 4) mod 60 = i"
    using assms by simp
  have "4 + i + c * 60 - 60 - 4 = i + (c - 1) * 60"
    by (simp add: algebra_simps)
  then have b: "(4 + i + c * 60 - 60 - 4) mod 60 = i"
    using assms by simp
  show ?thesis
    unfolding startYear_push c_def [symmetric] using a b by simp
qed

lemma name_push_label:
  assumes "0 \<le> i"
  shows "name (generate60JiaZi_push currentYear i)
         = JString (HEAVENLY_STEMS ! nat (i mod 10) @ EARTHLY_BRANCHES ! nat (i mod 12))"
  unfolding name_push by (rule label_of_residue [OF assms])

lemma getGanZhiYear_startYear_push:
  assumes "63 \<le> currentYear" "0 \<le> i" "i < 60"
  shows "getGanZhiYear (startYear (generate60JiaZi_push currentYear i))
         = name (generate60JiaZi_push currentYear i)"
proof -
  let ?y = "startYear (generate60JiaZi_push currentYear i)"
  have "currentYear - 60 < ?y"
    using startYear_push_window [OF assms(2,3)] by simp
  with assms(1) have "4 \<le> ?y" by simp
  then have "getGanZhiYear ?y = cycle_label ?y"
    by (rule getGanZhiYear_from_epoch)
  also have "\<dots> = JString (HEAVENLY_STEMS ! nat (i mod 10) @ EARTHLY_BRANCHES ! nat (i mod 12))"
    unfolding cycle_label_def startYear_push_residue [OF assms(2,3)] by simp
  also have "\<dots> = name (generate60JiaZi_push currentYear i)"
    by (simp add: name_push_label [OF assms(2)])
  finally show ?thesis .
qed

lemma set_generate60JiaZi:
  "set (generate60JiaZi currentYear) = generate60JiaZi_push currentYear ` {0..59}"
  by (simp add: generate60JiaZi_map)

text \<open>
  With a clock before the year 63 an entry's start year falls before the year 4, where
  the year label is not a label: the bound on the current year below is needed.
\<close>

lemma generate60JiaZi_early_clock:
  "generate60JiaZi 10 ! 59 = \<lparr>name = JString [gui, hai], year = 59, startYear = 3\<rparr>
   \<and> getGanZhiYear 3 = JNaN"
  unfolding generate60JiaZi_map upto_0_59
  by (simp add: generate60JiaZi_push_def Let_def baseYear_def getGanZhiYear_def js_rem_def
      js_index_def HEAVENLY_STEMS_def EARTHLY_BRANCHES_def)

text \<open>
  C4. \<open>generate60JiaZi\<close> returns 60 entries with pairwise distinct names; every
  entry's name is the year label of its \<open>startYear\<close>, and \<open>startYear\<close> is the most
  recent such year: \<open>currentYear - 60 < startYear \<le> currentYear\<close>. The current year
  is the year of the host clock when the table is generated, a parameter here; the
  statement holds for every current year from 63 on.
\<close>

theorem generate60JiaZi_entries:
  assumes "63 \<le> currentYear"
  shows "length (generate60JiaZi currentYear) = 60
         \<and> distinct (map name (generate60JiaZi currentYear))
         \<and> (\<forall>e \<in> set (generate60JiaZi currentYear).
               getGanZhiYear (startYear e) = name e
               \<and> currentYear - 60 < startYear e \<and> startYear e \<le> currentYear)"
proof (intro conjI ballI)
  show "length (generate60JiaZi currentYear) = 60"
    by (rule length_generate60JiaZi)
  show "distinct (map name (generate60JiaZi currentYear))"
    by (rule distinct_names_generate60JiaZi)
next
  fix e assume "e \<in> set (generate60JiaZi currentYear)"
  then obtain i where i: "0 \<le> i" "i < 60" and e: "e = generate60JiaZi_push currentYear i"
    unfolding set_generate60JiaZi by auto
  show "getGanZhiYear (startYear e) = name e"
    unfolding e by (rule getGanZhiYear_startYear_push [OF assms i])
  show "currentYear - 60 < startYear e" "startYear e \<le> currentYear"
    unfolding e using startYear_push_window [OF i] by simp_all
qed

theorem generate60JiaZi_entries_witness:
  "(63::int) \<le> 2026
   \<and> length (generate60JiaZi 2026) = 60
   \<and> distinct (map name (generate60JiaZi 2026))
   \<and> generate60JiaZi 2026 ! 42 = \<lparr>name = JString [bing, wu_branch], year = 42, startYear = 2026\<rparr>
   \<and> generate60JiaZi 2026 ! 43 = \<lparr>name = JString [ding, wei], year = 43, startYear = 1967\<rparr>
   \<and> getGanZhiYear 2026 = JString [bing, wu_branch]
   \<and> getGanZhiYear 1967 = JString [ding, wei]
   \<and> list_all (\<lambda>e. getGanZhiYear (startYear e) = name e
                      \<and> 2026 - 60 < startYear e \<and> startYear e \<le> 2026)
        (generate60JiaZi 2026)"
proof -
  have h: "(63::int) \<le> 2026" by simp
  have e42: "generate60JiaZi 2026 ! 42
             = \<lparr>name = JString [bing, wu_branch], year = 42, startYear = 2026\<rparr>"
    unfolding generate60JiaZi_map upto_0_59
    by (simp add: generate60JiaZi_push_def Let_def baseYear_def js_rem_def js_index_def
        HEAVENLY_STEMS_def EARTHLY_BRANCHES_def)
  have e43: "generate60JiaZi 2026 ! 43
             = \<lparr>name = JString [ding, wei], year = 43, startYear = 1967\<rparr>"
    unfolding generate60JiaZi_map upto_0_59
    by (simp add: generate60JiaZi_push_def Let_def baseYear_def js_rem_def js_index_def
        HEAVENLY_STEMS_def EARTHLY_BRANCHES_def)
  have m42: "generate60JiaZi 2026 ! 42 \<in> set (generate60JiaZi 2026)"
    by (rule nth_mem) (simp add: length_generate60JiaZi)
  have m43: "generate60JiaZi 2026 ! 43 \<in> set (generate60JiaZi 2026)"
    by (rule nth_mem) (simp add: length_generate60JiaZi)
  from generate60JiaZi_entries [OF h] m42 m43 e42 e43 show ?thesis
    by (auto simp: list_all_iff)
qed

section \<open>The solar-term index through a year\<close>

lemma dayOfYear_of_day:
  assumes "0 \<le> r" "r < 86400000"
  shows "(d * 86400000 + r) div (1000 * 60 * 60 * 24) = (d::int)"
proof -
  have "(r + d * 86400000) div 86400000 = d + r div 86400000"
    by (rule div_mult_self1) simp
  moreover have "r div 86400000 = 0"
    using assms by simp
  ultimately show ?thesis
    by (simp add: add.commute)
qed

lemma getCurrentSolarTermIndex_of_day:
  assumes "0 \<le> r" "r < 86400000"
  shows "getCurrentSolarTermIndex newDate
           \<lparr>getTime = getTime (newDate Y 0 0) + d * 86400000 + r, getFullYear = Y\<rparr>
         = js_rem ((d * 24) div 365) 24"
proof -
  have "getTime (newDate Y 0 0) + d * 86400000 + r - getTime (newDate Y 0 0)
        = d * 86400000 + r"
    by simp
  then show ?thesis
    unfolding getCurrentSolarTermIndex_def Let_def
    by (simp add: dayOfYear_of_day [OF assms, simplified])
qed

lemma term_index_before_wrap:
  assumes "1 \<le> d" "d \<le> 364"
  shows "js_rem ((d * 24) div 365) 24 = (d * 24) div 365"
    and "0 \<le> (d * 24) div 365" and "(d * 24) div 365 \<le> 23"
proof -
  show lo: "0 \<le> (d * 24) div 365" using assms by simp
  show hi: "(d * 24) div 365 \<le> 23" using assms by simp
  from lo hi show "js_rem ((d * 24) div 365) 24 = (d * 24) div 365"
    by (simp add: js_rem_nonneg)
qed

lemma term_index_at_wrap:
  "js_rem ((364 * 24) div 365) 24 = 23"
  "js_rem ((365 * 24) div 365) 24 = 0"
  "js_rem ((366 * 24) div 365) 24 = 0"
  by (simp_all add: js_rem_def)

lemma term_index_range:
  assumes "1 \<le> d" "d \<le> 366"
  shows "0 \<le> js_rem ((d * 24) div 365) 24 \<and> js_rem ((d * 24) div 365) 24 \<le> 23"
proof -
  consider "d \<le> 364" | "d = 365" | "d = 366" using assms by linarith
  then show ?thesis
  proof cases
    case 1
    with assms term_index_before_wrap [of d] show ?thesis by simp
  next
    case 2
    then show ?thesis by (simp add: js_rem_def)
  next
    case 3
    then show ?thesis by (simp add: js_rem_def)
  qed
qed

lemma term_index_step:
  assumes "1 \<le> d" "d \<le> 365"
  shows "(js_rem (((d + 1) * 24) div 365) 24 < js_rem ((d * 24) div 365) 24) = (d = 364)"
proof -
  consider "d \<le> 363" | "d = 364" | "d = 365" using assms by linarith
  then show ?thesis
  proof cases
    case 1
    then have a: "js_rem ((d * 24) div 365) 24 = (d * 24) div 365"
      using assms term_index_before_wrap(1) [of d] by simp
    from 1 have b: "js_rem (((d + 1) * 24) div 365) 24 = ((d + 1) * 24) div 365"
      using assms term_index_before_wrap(1) [of "d + 1"] by simp
    have "(d * 24) div 365 \<le> ((d + 1) * 24) div 365"
      by (rule zdiv_mono1) simp_all
    with 1 show ?thesis unfolding a b by simp
  next
    case 2
    then show ?thesis by (simp add: js_rem_def)
  next
    case 3
    then show ?thesis by (simp add: js_rem_def)
  qed
qed

text \<open>\<open>getCurrentSolarTerm\<close> reads \<open>SOLAR_TERMS\<close> at the same index.\<close>

lemma getCurrentSolarTerm_index:
  "getCurrentSolarTerm newDate date
   = js_index SOLAR_TERMS (getCurrentSolarTermIndex newDate date)"
  by (simp add: getCurrentSolarTerm_def getCurrentSolarTermIndex_def Let_def)

text \<open>
  In a year whose day \<open>d\<close> (1 for January 1, up to 365, or 366 in a leap year) is
  the time \<open>d\<close> days after \<open>new Date(Y, 0, 0)\<close> plus a fixed time of day \<open>r\<close>,
  the index lies in 0..23 and falls between two successive days only from day 364 to
  day 365, from 23 to 0; on day 366 it is still 0.
\<close>

lemma getCurrentSolarTermIndex_regular_year:
  fixes newDate :: "int \<Rightarrow> int \<Rightarrow> int \<Rightarrow> Date" and Y r :: int
  defines "idx \<equiv> \<lambda>d. getCurrentSolarTermIndex newDate
                  \<lparr>getTime = getTime (newDate Y 0 0) + d * 86400000 + r, getFullYear = Y\<rparr>"
  assumes "0 \<le> r" "r < 86400000"
  shows "(\<forall>d \<in> {1..366}. 0 \<le> idx d \<and> idx d \<le> 23)
         \<and> (\<forall>d \<in> {1..365}. (idx (d + 1) < idx d) = (d = 364))
         \<and> idx 364 = 23 \<and> idx 365 = 0 \<and> idx 366 = 0"
proof -
  have idx: "idx d = js_rem ((d * 24) div 365) 24" for d
    unfolding idx_def by (rule getCurrentSolarTermIndex_of_day [OF assms(2,3)])
  show ?thesis
    unfolding idx using term_index_range term_index_step term_index_at_wrap by simp
qed

text \<open>The host's dates agree with the two base dates of the code and with the year 2024.\<close>

lemma year_of_days_values:
  "year_of_days (- 701100) = 50"
  "year_of_days (- 701265) = 50"
  "year_of_days (- 7306) = 1949"
  "year_of_days (- 7397) = 1949"
  "year_of_days 10957 = 2000"
  "year_of_days 19722 = 2023"
  by code_simp+

lemma host_dates:
  "Date_parse 2000 1 1 = baseDate_2000"
  "Date_parse 1949 10 1 = baseDate_1949"
  "new_Date 2024 0 0 = Date_parse 2023 12 31"
  "getTime (new_Date 2024 0 0) = 1703980800000"
  by (simp_all add: Date_parse_def new_Date_def Date_of_time_def days_from_civil_def
      year_of_days_values baseDate_2000_def baseDate_1949_def)

lemma host_dates_year_50:
  "Date_parse 50 6 15 = \<lparr>getTime = - 60575040000000, getFullYear = 50\<rparr>"
  "Date_parse 50 1 1 = \<lparr>getTime = - 60589296000000, getFullYear = 50\<rparr>"
  "Date_parse 1949 12 31 = \<lparr>getTime = - 631238400000, getFullYear = 1949\<rparr>"
  "new_Date 50 0 0 = \<lparr>getTime = - 631238400000, getFullYear = 1949\<rparr>"
  by (simp_all add: Date_parse_def new_Date_def Date_of_time_def days_from_civil_def
      year_of_days_values)

lemma getCurrentSolarTermIndex_2024:
  "getCurrentSolarTermIndex new_Date
     \<lparr>getTime = getTime (new_Date 2024 0 0) + 364 * 86400000 + 43200000,
      getFullYear = 2024\<rparr> = 23
   \<and> getCurrentSolarTermIndex new_Date
     \<lparr>getTime = getTime (new_Date 2024 0 0) + 365 * 86400000 + 43200000,
      getFullYear = 2024\<rparr> = 0
   \<and> getCurrentSolarTermIndex new_Date
     \<lparr>getTime = getTime (new_Date 2024 0 0) + 366 * 86400000 + 43200000,
      getFullYear = 2024\<rparr> = 0"
proof -
  have r: "(0::int) \<le> 43200000" "(43200000::int) < 86400000" by simp_all
  from getCurrentSolarTermIndex_regular_year [OF r, of new_Date 2024] show ?thesis
    by (rule_tac conjunct2 [OF conjunct2])
qed

text \<open>
  C5. The claim: for every calendar year, day by day from January 1 to December 31,
  \<open>getCurrentSolarTermIndex\<close> never decreases but for one wrap to 0, and always lies
  in 0..23. The code takes the start of the year from
  \<open>new Date(time.getFullYear(), 0, 0)\<close>, and the constructor reads a year from 0 to 99
  as a year of the twentieth century. For the date 0050-06-15, which the date input of
  the page gives as \<open>new Date('0050-06-15')\<close>, the start is 1949-12-31, the day of the
  year comes out as -693794, the quotient \<open>floor(dayOfYear * 24 / 365)\<close> as -45620 and
  the index, with the truncating \<open>%\<close>, as -20; \<open>getCurrentSolarTerm\<close> then reads
  \<open>SOLAR_TERMS\<close> out of range. On January 1 of that year the index is -7.
\<close>

theorem getCurrentSolarTermIndex_year_50:
  "Date_parse 50 6 15 = \<lparr>getTime = - 60575040000000, getFullYear = 50\<rparr>
   \<and> new_Date 50 0 0 = Date_parse 1949 12 31
   \<and> getTime (new_Date 50 0 0) = - 631238400000
   \<and> (getTime (Date_parse 50 6 15) - getTime (new_Date 50 0 0)) div (1000 * 60 * 60 * 24)
       = - 693794
   \<and> (- 693794 * 24) div 365 = (- 45620 :: int)
   \<and> getCurrentSolarTermIndex new_Date (Date_parse 50 6 15) = - 20
   \<and> getCurrentSolarTerm new_Date (Date_parse 50 6 15) = None
   \<and> getCurrentSolarTermIndex new_Date (Date_parse 50 1 1) = - 7"
  unfolding host_dates_year_50
  by (simp add: getCurrentSolarTermIndex_def getCurrentSolarTerm_def host_dates_year_50
      js_rem_def js_index_def)

section \<open>Positions on the orbit\<close>

lemma calculatePosition_angle:
  "calculatePosition Body time body distance
   = (distance * cos (phase_angle Body time body), 0, distance * sin (phase_angle Body time body))"
  by (simp add: calculatePosition_def phase_angle_def Let_def)

lemma period_nonzero: "period Body body \<noteq> 0"
proof -
  have "p \<noteq> 0 \<Longrightarrow> (if p = 0 then 365.256 else p) \<noteq> (0::real)" for p
    by simp
  then show ?thesis
    unfolding period_def Let_def by (auto split: option.splits)
qed

lemma period_positive: "0 < period Body body"
proof -
  have t: "map_of orbitalPeriods k = Some p \<Longrightarrow> 0 < p" for k p
    by (auto simp: orbitalPeriods_def split: if_splits)
  show ?thesis
    unfolding period_def Let_def using t by (auto split: option.splits)
qed

lemma norm_on_circle: "sqrt ((R * cos a)\<^sup>2 + 0\<^sup>2 + (R * sin a)\<^sup>2) = \<bar>R\<bar>"
proof -
  have e: "R\<^sup>2 * (cos a)\<^sup>2 + R\<^sup>2 * (sin a)\<^sup>2 = R\<^sup>2"
    by (simp only: distrib_left [symmetric] sin_cos_squared_add2 mult_1_right)
  have "(R * cos a)\<^sup>2 + 0\<^sup>2 + (R * sin a)\<^sup>2
        = R\<^sup>2 * (cos a)\<^sup>2 + R\<^sup>2 * (sin a)\<^sup>2"
    by (simp add: power_mult_distrib)
  with e have "(R * cos a)\<^sup>2 + 0\<^sup>2 + (R * sin a)\<^sup>2 = R\<^sup>2"
    by (rule_tac trans)
  then show ?thesis
    by (simp only: real_sqrt_abs)
qed

text \<open>
  C6. For every body, every orbit radius and every time, \<open>calculatePosition\<close> returns
  \<open>(R cos \<theta>, 0, R sin \<theta>)\<close> for an angle \<open>\<theta>\<close>: the y component is 0 and the
  Euclidean norm is the radius (its absolute value; the radii of the scene are
  positive). Numbers are real numbers here, which is the exact statement that the
  floating-point tolerance of the claim surrounds.
\<close>

theorem calculatePosition_on_circle:
  "(\<exists>\<theta>. calculatePosition Body time body distance = (distance * cos \<theta>, 0, distance * sin \<theta>))
   \<and> euclidean_norm (calculatePosition Body time body distance) = \<bar>distance\<bar>"
proof
  show "\<exists>\<theta>. calculatePosition Body time body distance = (distance * cos \<theta>, 0, distance * sin \<theta>)"
    by (rule exI [of _ "phase_angle Body time body"]) (rule calculatePosition_angle)
  show "euclidean_norm (calculatePosition Body time body distance) = \<bar>distance\<bar>"
    unfolding calculatePosition_angle euclidean_norm_def prod.case by (rule norm_on_circle)
qed

lemma angle_after_period:
  assumes "real_of_int (getTime time') = real_of_int (getTime time) + period Body body * 86400000"
  shows "phase_angle Body time' body = phase_angle Body time body + 2 * pi"
proof -
  let ?P = "period Body body"
  let ?b = "real_of_int (getTime baseDate_2000)"
  have P: "?P \<noteq> 0" by (rule period_nonzero)
  have "real_of_int (getTime time' - getTime baseDate_2000)
        = real_of_int (getTime time - getTime baseDate_2000) + ?P * 86400000"
    using assms by simp
  then have "phase_angle Body time' body
        = ((real_of_int (getTime time - getTime baseDate_2000) + ?P * 86400000) / 86400000 / ?P) * pi * 2"
    unfolding phase_angle_def by simp
  also have "\<dots> = (real_of_int (getTime time - getTime baseDate_2000) / 86400000 / ?P + 1) * pi * 2"
    using P by (simp add: add_divide_distrib)
  also have "\<dots> = phase_angle Body time body + 2 * pi"
    unfolding phase_angle_def by (simp add: algebra_simps)
  finally show ?thesis .
qed

text \<open>
  C7. When \<open>time'\<close> is one orbital period of the body (in days of 86400000 ms) after
  \<open>time\<close>, the phase angle is larger by exactly \<open>2 pi\<close> and \<open>calculatePosition\<close>
  returns the same position. The period is the one the code selects for the body.
\<close>

theorem calculatePosition_periodic:
  assumes "real_of_int (getTime time') = real_of_int (getTime time) + period Body body * 86400000"
  shows "calculatePosition Body time' body distance = calculatePosition Body time body distance
         \<and> phase_angle Body time' body = phase_angle Body time body + 2 * pi"
  unfolding calculatePosition_angle angle_after_period [OF assms] by simp

lemma period_Mercury:
  "period [(''Sun'', ''Sun''), (''Mercury'', ''Mercury''), (''Earth'', ''Earth'')] ''Mercury''
   = 87.97"
  by (simp add: period_def bodyKey_def orbitalPeriods_def)

theorem calculatePosition_periodic_witness:
  "period [(''Sun'', ''Sun''), (''Mercury'', ''Mercury''), (''Earth'', ''Earth'')] ''Mercury''
     = 87.97
   \<and> real_of_int (1735689600000 + 7600608000) = real_of_int 1735689600000 + 87.97 * 86400000
   \<and> calculatePosition [(''Sun'', ''Sun''), (''Mercury'', ''Mercury''), (''Earth'', ''Earth'')]
        \<lparr>getTime = 1735689600000 + 7600608000, getFullYear = 2025\<rparr> ''Mercury'' 12
     = calculatePosition [(''Sun'', ''Sun''), (''Mercury'', ''Mercury''), (''Earth'', ''Earth'')]
        \<lparr>getTime = 1735689600000, getFullYear = 2025\<rparr> ''Mercury'' 12"
proof -
  let ?B = "[(''Sun'', ''Sun''), (''Mercury'', ''Mercury''), (''Earth'', ''Earth'')]"
  let ?t = "\<lparr>getTime = 1735689600000, getFullYear = 2025\<rparr>"
  let ?t' = "\<lparr>getTime = 1735689600000 + 7600608000, getFullYear = 2025\<rparr>"
  have h: "real_of_int (getTime ?t') = real_of_int (getTime ?t) + period ?B ''Mercury'' * 86400000"
    unfolding period_Mercury by simp
  from calculatePosition_periodic [OF h] period_Mercury show ?thesis
    by simp
qed

text \<open>
  C8. For a body value with no key in the enum, or whose key is not in
  \<open>orbitalPeriods\<close>, \<open>calculatePosition\<close> uses the period 365.256 of the Earth and
  returns the position on the circle of the requested radius at that period's phase;
  no error arises.
\<close>

theorem calculatePosition_unknown_body:
  assumes "case bodyKey Body body of
             None \<Rightarrow> True
           | Some key \<Rightarrow> map_of orbitalPeriods key = None"
  shows "period Body body = 365.256
         \<and> calculatePosition Body time body distance
           = (distance * cos ((real_of_int (getTime time - 946684800000) / 86400000 / 365.256) * pi * 2),
              0,
              distance * sin ((real_of_int (getTime time - 946684800000) / 86400000 / 365.256) * pi * 2))
         \<and> euclidean_norm (calculatePosition Body time body distance) = \<bar>distance\<bar>"
proof -
  have E: "map_of orbitalPeriods ''Earth'' = Some 365.256"
    by (simp add: orbitalPeriods_def)
  have P: "period Body body = 365.256"
  proof (cases "bodyKey Body body")
    case None
    then show ?thesis by (simp add: period_def E)
  next
    case (Some key)
    with assms have k: "map_of orbitalPeriods key = None" by simp
    show ?thesis
    proof (cases "key = []")
      case True
      with Some show ?thesis by (simp add: period_def E)
    next
      case False
      with Some k show ?thesis by (simp add: period_def)
    qed
  qed
  have N: "euclidean_norm (calculatePosition Body time body distance) = \<bar>distance\<bar>"
    unfolding calculatePosition_angle euclidean_norm_def prod.case by (rule norm_on_circle)
  have C: "calculatePosition Body time body distance
           = (distance * cos ((real_of_int (getTime time - 946684800000) / 86400000 / 365.256) * pi * 2),
              0,
              distance * sin ((real_of_int (getTime time - 946684800000) / 86400000 / 365.256) * pi * 2))"
    unfolding calculatePosition_def Let_def P by (simp add: baseDate_2000_def)
  from P C N show ?thesis by blast
qed

theorem calculatePosition_unknown_body_witness:
  "bodyKey [(''Earth'', ''Earth''), (''Uranus'', ''Uranus'')] ''Uranus'' = Some ''Uranus''
   \<and> map_of orbitalPeriods ''Uranus'' = None
   \<and> bodyKey [(''Earth'', ''Earth''), (''Uranus'', ''Uranus'')] ''Vulcan'' = None
   \<and> period [(''Earth'', ''Earth''), (''Uranus'', ''Uranus'')] ''Uranus'' = 365.256
   \<and> period [(''Earth'', ''Earth''), (''Uranus'', ''Uranus'')] ''Vulcan'' = 365.256
   \<and> calculatePosition [(''Earth'', ''Earth''), (''Uranus'', ''Uranus'')]
        baseDate_2000 ''Uranus'' 24 = (24, 0, 0)
   \<and> euclidean_norm (calculatePosition [(''Earth'', ''Earth''), (''Uranus'', ''Uranus'')]
        \<lparr>getTime = 1735689600000, getFullYear = 2025\<rparr> ''Vulcan'' 24) = 24"
proof -
  let ?B = "[(''Earth'', ''Earth''), (''Uranus'', ''Uranus'')]"
  have u: "bodyKey ?B ''Uranus'' = Some ''Uranus''" "map_of orbitalPeriods ''Uranus'' = None"
    by (simp_all add: bodyKey_def orbitalPeriods_def)
  have v: "bodyKey ?B ''Vulcan'' = None"
    by (simp add: bodyKey_def)
  have hu: "case bodyKey ?B ''Uranus'' of None \<Rightarrow> True
            | Some key \<Rightarrow> map_of orbitalPeriods key = None"
    using u by simp
  have hv: "case bodyKey ?B ''Vulcan'' of None \<Rightarrow> True
            | Some key \<Rightarrow> map_of orbitalPeriods key = None"
    using v by simp
  note U = calculatePosition_unknown_body [OF hu, of baseDate_2000 24]
  note V = calculatePosition_unknown_body
             [OF hv, of "\<lparr>getTime = 1735689600000, getFullYear = 2025\<rparr>" 24]
  have pu: "period ?B ''Uranus'' = 365.256"
    by (rule U [THEN conjunct1])
  have pv: "period ?B ''Vulcan'' = 365.256"
    by (rule V [THEN conjunct1])
  have cu: "calculatePosition ?B baseDate_2000 ''Uranus'' 24 = (24, 0, 0)"
    using U [THEN conjunct2, THEN conjunct1] by (simp add: baseDate_2000_def)
  have nv: "euclidean_norm (calculatePosition ?B
              \<lparr>getTime = 1735689600000, getFullYear = 2025\<rparr> ''Vulcan'' 24) = 24"
    using V [THEN conjunct2, THEN conjunct2] by simp
  from u v pu pv cu nv show ?thesis
    by blast
qed

section \<open>The day label at its anchor\<close>

text \<open>
  C9. \<open>getGanZhiDay\<close> at the anchor date 1949-10-01 itself: the difference in days is
  0, the offset is \<open>(0 + 10) % 60 = 10\<close>, the stem index \<open>10 % 10 = 0\<close> is jia, the
  branch index \<open>10 % 12 = 10\<close> is xu, and the label is jia-xu.
\<close>

theorem getGanZhiDay_anchor:
  "getGanZhiDay baseDate_1949 = JString [jia, xu]
   \<and> getTime baseDate_1949 - getTime baseDate_1949 = 0
   \<and> js_rem (0 + 10) 60 = 10 \<and> js_rem 10 10 = 0 \<and> js_rem 10 12 = 10
   \<and> js_index HEAVENLY_STEMS 0 = Some [jia] \<and> js_index EARTHLY_BRANCHES 10 = Some [xu]"
  by (simp add: getGanZhiDay_def js_rem_def js_index_def HEAVENLY_STEMS_def EARTHLY_BRANCHES_def)

section \<open>Cycle names and their planets\<close>

lemma planets_of_names:
  "map planet_for (map name (generate60JiaZi currentYear)) =
     map Some
     [''mercury'', ''mercury'', ''mars'', ''mars'', ''saturn'', ''saturn'',
      ''venus'', ''venus'', ''jupiter'', ''jupiter'', ''mercury'', ''mercury'',
      ''mercury'', ''mercury'', ''saturn'', ''saturn'', ''venus'', ''venus'',
      ''jupiter'', ''jupiter'', ''mercury'', ''mercury'', ''mars'', ''mars'',
      ''mercury'', ''mercury'', ''venus'', ''venus'', ''jupiter'', ''jupiter'',
      ''mercury'', ''mercury'', ''mars'', ''mars'', ''saturn'', ''saturn'',
      ''mercury'', ''mercury'', ''jupiter'', ''jupiter'', ''mercury'', ''mercury'',
      ''mars'', ''mars'', ''saturn'', ''saturn'', ''venus'', ''venus'',
      ''mercury'', ''mercury'', ''mercury'', ''mercury'', ''mars'', ''mars'',
      ''saturn'', ''saturn'', ''venus'', ''venus'', ''jupiter'', ''jupiter'']"
  unfolding names_generate60JiaZi
  by (simp add: planet_for_def jiaziToPlanet_def default_key_def)

text \<open>
  The keys of the table are pairwise distinct, so the first entry for a key, which
  \<open>map_of\<close> returns, is the only one.
\<close>

lemma jiaziToPlanet_keys_distinct: "distinct (map fst jiaziToPlanet)"
  by (simp add: jiaziToPlanet_def default_key_def)

lemma jiaziToPlanet_default: "map_of jiaziToPlanet default_key = Some ''earth''"
  by (simp add: jiaziToPlanet_def default_key_def)

lemma planet_for_table:
  assumes "planet_for n = Some p" "p \<noteq> ''earth''"
  shows "map_of jiaziToPlanet (ToPropertyKey n) = Some p"
  using assms unfolding planet_for_def jiaziToPlanet_default
  by (auto split: option.splits if_splits)

lemma targetPlanet_handleJiaziSelect:
  "targetPlanet (handleJiaziSelect newDate Y n st)
   = (case planet_for n of
        Some p \<Rightarrow> if p \<noteq> [] then Some p else Some ''earth''
      | None \<Rightarrow> Some ''earth'')"
  by (simp add: handleJiaziSelect_def Let_def split: option.splits)

lemma planet_for_cycle_name:
  assumes "e \<in> set (generate60JiaZi currentYear)"
  shows "planet_for (name e)
         \<in> Some ` {''mercury'', ''jupiter'', ''mars'', ''saturn'', ''venus''}"
proof -
  from assms have "planet_for (name e) \<in> set (map planet_for (map name (generate60JiaZi currentYear)))"
    by simp
  then show ?thesis
    unfolding planets_of_names by auto
qed

text \<open>
  C10. For every entry of \<open>generate60JiaZi\<close>, the table \<open>jiaziToPlanet\<close> has an
  entry under the entry's name, and its value is one of mercury, jupiter, mars,
  saturn and venus; the expression \<open>jiaziToPlanet[name] || jiaziToPlanet['default']\<close>
  yields that value, not the default, and \<open>handleJiaziSelect\<close> sets it as the target
  planet.
\<close>

theorem jiaziToPlanet_covers_cycle:
  "\<forall>e \<in> set (generate60JiaZi currentYear).
     map_of jiaziToPlanet (ToPropertyKey (name e))
       \<in> Some ` {''mercury'', ''jupiter'', ''mars'', ''saturn'', ''venus''}
     \<and> planet_for (name e) = map_of jiaziToPlanet (ToPropertyKey (name e))
     \<and> targetPlanet (handleJiaziSelect newDate Y (name e) st)
         = map_of jiaziToPlanet (ToPropertyKey (name e))"
proof
  fix e assume e: "e \<in> set (generate60JiaZi currentYear)"
  from planet_for_cycle_name [OF e] obtain p
    where p: "planet_for (name e) = Some p"
      and p5: "p \<in> {''mercury'', ''jupiter'', ''mars'', ''saturn'', ''venus''}"
    by auto
  from p5 have ne: "p \<noteq> ''earth''" and nn: "p \<noteq> []" by auto
  have t: "map_of jiaziToPlanet (ToPropertyKey (name e)) = Some p"
    by (rule planet_for_table [OF p ne])
  have h: "targetPlanet (handleJiaziSelect newDate Y (name e) st) = Some p"
    unfolding targetPlanet_handleJiaziSelect p using nn by simp
  from p p5 t h
  show "map_of jiaziToPlanet (ToPropertyKey (name e))
          \<in> Some ` {''mercury'', ''jupiter'', ''mars'', ''saturn'', ''venus''}
        \<and> planet_for (name e) = map_of jiaziToPlanet (ToPropertyKey (name e))
        \<and> targetPlanet (handleJiaziSelect newDate Y (name e) st)
            = map_of jiaziToPlanet (ToPropertyKey (name e))"
    by simp
qed

theorem jiaziToPlanet_covers_cycle_witness:
  "generate60JiaZi 2026 ! 38 = \<lparr>name = JString [ren, yin], year = 38, startYear = 2022\<rparr>
   \<and> map_of jiaziToPlanet [ren, yin] = Some ''jupiter''
   \<and> planet_for (JString [ren, yin]) = Some ''jupiter''
   \<and> targetPlanet
        (handleJiaziSelect (\<lambda>y m d. \<lparr>getTime = 1640995200000, getFullYear = 2022\<rparr>) 2022
           (JString [ren, yin])
           \<lparr>currentTime = \<lparr>getTime = 1767225600000, getFullYear = 2026\<rparr>,
            showJiaziModal = True, isPlaying = True, targetPlanet = None\<rparr>)
       = Some ''jupiter''"
proof -
  have e: "generate60JiaZi 2026 ! 38
           = \<lparr>name = JString [ren, yin], year = 38, startYear = 2022\<rparr>"
    unfolding generate60JiaZi_map upto_0_59
    by (simp add: generate60JiaZi_push_def Let_def baseYear_def js_rem_def js_index_def
        HEAVENLY_STEMS_def EARTHLY_BRANCHES_def)
  have m: "generate60JiaZi 2026 ! 38 \<in> set (generate60JiaZi 2026)"
    by (rule nth_mem) (simp add: length_generate60JiaZi)
  have j: "map_of jiaziToPlanet [ren, yin] = Some ''jupiter''"
    by (simp add: jiaziToPlanet_def)
  note T = bspec [OF jiaziToPlanet_covers_cycle m,
      of "\<lambda>y m d. \<lparr>getTime = 1640995200000, getFullYear = 2022\<rparr>" 2022
         "\<lparr>currentTime = \<lparr>getTime = 1767225600000, getFullYear = 2026\<rparr>,
           showJiaziModal = True, isPlaying = True, targetPlanet = None\<rparr>"]
  from T e j show ?thesis
    by simp
qed

end
